theory Spec2Isabelle
  imports Main "HOL-Library.AList"
begin

section \<open>The agent manager of autogpt/agent_manager.py\<close>

text \<open>
  The class \<open>AgentManager\<close> keeps a dictionary of agents, a counter \<open>next_key\<close> and a
  configuration holding the ordered plugin list. Its methods mutate the dictionary and
  the message lists stored in it; here every method takes the manager and returns the
  manager it leaves behind, together with either the value returned or the exception
  raised.

  What is outside the file is a parameter of the model:
  \<^item> \<open>create_chat_completion\<close> (imported from \<open>autogpt.llm\<close>) is a function from the model
    name, the messages and the configuration to a reply or an exception;
  \<^item> a plugin is a record of its three capability flags and its three hooks. The
    pre-instruction and on-instruction hooks are handed the live message list, which
    they may change: such a hook is a function from the list it is handed to what it
    returns or raises, paired with the list as it leaves it. The list a pre-instruction
    hook returns is taken to be a list of its own. The post-instruction hook is handed
    a string and returns a string or raises.
  \<^item> \<open>print_log\<close> (imported from \<open>autogpt.api_log\<close>) is taken to return; the handler of
    \<open>message_agent\<close> then re-raises the exception it caught, so it is the identity on
    the outcome.
  Two records of the dictionary are taken not to share one list object.
\<close>

subsection \<open>Values\<close>

datatype exn =
    ValueError
  | UnboundLocalError
  | KeyError
  | Raised string

datatype key = IntKey int | StrKey string

record message =
  role :: string
  content :: string

type_synonym agent = "string \<times> message list \<times> string"

type_synonym agent_dict = "(key \<times> agent) list"

record plugin =
  can_handle_pre_instruction :: bool
  pre_instruction :: "message list \<Rightarrow> (exn + message list) \<times> message list"
  can_handle_on_instruction :: bool
  on_instruction :: "message list \<Rightarrow> (exn + string option) \<times> message list"
  can_handle_post_instruction :: bool
  post_instruction :: "string \<Rightarrow> exn + string"

record config =
  plugins :: "plugin list"

type_synonym chat_completion = "string \<Rightarrow> message list \<Rightarrow> config \<Rightarrow> exn + string"

record AgentManager =
  next_key :: int
  cfg :: config
  agents :: agent_dict

subsection \<open>The builtins \<open>int()\<close> and \<open>str()\<close> on keys\<close>

text \<open>
  \<open>int(s)\<close> on a string strips surrounding whitespace, reads an optional sign and then
  decimal digits, where single underscores may stand between digits; anything else
  raises \<open>ValueError\<close>. Strings are ASCII here: whitespace and digits outside ASCII and the
  interpreter's limit on the number of digits are left out. \<open>int\<close> and \<open>str\<close> are the
  identity on their own type.
\<close>

definition is_space :: "char \<Rightarrow> bool" where
  "is_space c = (c \<in> set [CHR '' '', CHR 0x09, CHR 0x0A, CHR 0x0B, CHR 0x0C, CHR 0x0D])"

definition is_digit :: "char \<Rightarrow> bool" where
  "is_digit c = (c \<in> set ''0123456789'')"

definition digit_val :: "char \<Rightarrow> int" where
  "digit_val c = int (of_char c) - 48"

definition strip :: "string \<Rightarrow> string" where
  "strip s = rev (dropWhile is_space (rev (dropWhile is_space s)))"

fun digits_ok :: "bool \<Rightarrow> string \<Rightarrow> bool" where
  "digits_ok prev [] = prev"
| "digits_ok prev (c # cs) =
     (if is_digit c then digits_ok True cs
      else if c = CHR ''_'' \<and> prev then digits_ok False cs
      else False)"

definition digits_value :: "string \<Rightarrow> int" where
  "digits_value ds = foldl (\<lambda>a c. 10 * a + digit_val c) 0 (filter is_digit ds)"

definition parse_digits :: "string \<Rightarrow> exn + int" where
  "parse_digits ds = (if digits_ok False ds then Inr (digits_value ds) else Inl ValueError)"

definition int_of_string :: "string \<Rightarrow> exn + int" where
  "int_of_string s =
     (case strip s of
        [] \<Rightarrow> Inl ValueError
      | c # r \<Rightarrow>
          if c = CHR ''-'' then map_sum id uminus (parse_digits r)
          else if c = CHR ''+'' then parse_digits r
          else parse_digits (c # r))"

fun py_int :: "key \<Rightarrow> exn + int" where
  "py_int (IntKey i) = Inr i"
| "py_int (StrKey s) = int_of_string s"

definition digit_char :: "nat \<Rightarrow> char" where
  "digit_char n = ''0123456789'' ! (n mod 10)"

fun str_nat :: "nat \<Rightarrow> string" where
  "str_nat n = (if n < 10 then [digit_char n] else str_nat (n div 10) @ [digit_char n])"

declare str_nat.simps [simp del]

definition str_int :: "int \<Rightarrow> string" where
  "str_int i = (if i < 0 then CHR ''-'' # str_nat (nat (- i)) else str_nat (nat i))"

fun py_str :: "key \<Rightarrow> string" where
  "py_str (IntKey i) = str_int i"
| "py_str (StrKey s) = s"

subsection \<open>Dictionary operations\<close>

text \<open>
  A dictionary keeps insertion order: it is a list of pairs with distinct keys.
  \<open>d[k] = v\<close> replaces the value in place when \<open>k\<close> is present and appends otherwise
  (\<open>AList.update\<close>); \<open>del d[k]\<close> raises \<open>KeyError\<close> when \<open>k\<close> is absent.
\<close>

definition dict_del :: "agent_dict \<Rightarrow> key \<Rightarrow> exn + agent_dict" where
  "dict_del d k =
     (case map_of d k of
        None \<Rightarrow> Inl KeyError
      | Some _ \<Rightarrow> Inr (AList.delete k d))"

subsection \<open>The hook loops\<close>

definition user_message :: "string \<Rightarrow> message" where
  "user_message c = \<lparr>role = ''user'', content = c\<rparr>"

definition assistant_message :: "string \<Rightarrow> message" where
  "assistant_message c = \<lparr>role = ''assistant'', content = c\<rparr>"

text \<open>
  The pre-instruction loop (lines 38-42 and 97-102). Each hook works on the live list;
  what it returns is appended to the list as the hook left it. The loop returns the
  exception that stopped it, if any, and the message list as it stands at that moment.
\<close>

fun pre_instruction_loop :: "plugin list \<Rightarrow> message list \<Rightarrow> exn option \<times> message list" where
  "pre_instruction_loop [] messages = (None, messages)"
| "pre_instruction_loop (p # ps) messages =
     (if \<not> can_handle_pre_instruction p then pre_instruction_loop ps messages
      else case pre_instruction p messages of
             (Inl e, messages') \<Rightarrow> (Some e, messages')
           | (Inr plugin_messages, messages') \<Rightarrow>
               pre_instruction_loop ps (messages' @ plugin_messages))"

text \<open>
  The on-instruction loop (lines 53-58 and 114-119) runs over \<open>enumerate(plugins)\<close>; a
  result that is \<open>None\<close> or the empty string is falsy and skipped; the separator is a
  newline when the index \<open>i\<close> of the plugin is not zero. The loop returns the aggregate or
  the exception that stopped it, and the message list as the hooks left it.
\<close>

fun on_instruction_loop ::
  "(nat \<times> plugin) list \<Rightarrow> message list \<Rightarrow> string \<Rightarrow> (exn + string) \<times> message list" where
  "on_instruction_loop [] messages plugins_reply = (Inr plugins_reply, messages)"
| "on_instruction_loop ((i, p) # ps) messages plugins_reply =
     (if \<not> can_handle_on_instruction p then on_instruction_loop ps messages plugins_reply
      else case on_instruction p messages of
             (Inl e, messages') \<Rightarrow> (Inl e, messages')
           | (Inr None, messages') \<Rightarrow> on_instruction_loop ps messages' plugins_reply
           | (Inr (Some plugin_result), messages') \<Rightarrow>
               if plugin_result = [] then on_instruction_loop ps messages' plugins_reply
               else on_instruction_loop ps messages'
                      (plugins_reply @ (if i \<noteq> 0 then [CHR 0x0A] else []) @ plugin_result))"

text \<open>The post-instruction loop (lines 69-72 and 124-127).\<close>

fun post_instruction_loop :: "plugin list \<Rightarrow> string \<Rightarrow> exn + string" where
  "post_instruction_loop [] agent_reply = Inr agent_reply"
| "post_instruction_loop (p # ps) agent_reply =
     (if \<not> can_handle_post_instruction p then post_instruction_loop ps agent_reply
      else case post_instruction p agent_reply of
             Inl e \<Rightarrow> Inl e
           | Inr r \<Rightarrow> post_instruction_loop ps r)"

text \<open>Lines 60-61 and 121-122: the aggregate is appended when it is not empty.\<close>

definition append_plugins_reply :: "message list \<Rightarrow> string \<Rightarrow> message list" where
  "append_plugins_reply messages plugins_reply =
     (if plugins_reply \<noteq> [] then messages @ [assistant_message plugins_reply] else messages)"

subsection \<open>The methods\<close>

definition AgentManager_init :: "config \<Rightarrow> agent_dict \<Rightarrow> AgentManager" where
  "AgentManager_init c ags = \<lparr>next_key = int (length (map fst ags)), cfg = c, agents = ags\<rparr>"

definition create_agent ::
  "chat_completion \<Rightarrow> AgentManager \<Rightarrow> string \<Rightarrow> string \<Rightarrow> string
     \<Rightarrow> (exn + int \<times> string) \<times> AgentManager" where
  "create_agent create_chat_completion self task prompt model =
     (case pre_instruction_loop (plugins (cfg self)) [user_message prompt] of
        (Some e, _) \<Rightarrow> (Inl e, self)
      | (None, messages) \<Rightarrow>
     (case create_chat_completion model messages (cfg self) of
        Inl e \<Rightarrow> (Inl e, self)
      | Inr agent_reply \<Rightarrow>
     (case on_instruction_loop (enumerate 0 (plugins (cfg self)))
             (messages @ [assistant_message agent_reply]) [] of
        (Inl e, _) \<Rightarrow> (Inl e, self)
      | (Inr plugins_reply, messages') \<Rightarrow>
          let messages'' = append_plugins_reply messages' plugins_reply;
              k = next_key self;
              self' = self\<lparr>next_key := next_key self + 1,
                           agents := AList.update (IntKey k) (task, messages'', model)
                                       (agents self)\<rparr>
          in case post_instruction_loop (plugins (cfg self)) agent_reply of
               Inl e \<Rightarrow> (Inl e, self')
             | Inr r \<Rightarrow> (Inr (k, r), self'))))"

text \<open>
  Lines 87-92. No branch of the chain binds \<open>messages\<close> when the three tests fail, and
  line 95 then raises \<open>UnboundLocalError\<close>; \<open>int(key)\<close> is evaluated for the second test
  and may raise \<open>ValueError\<close>. The result names the key whose record was bound.
\<close>

definition lookup_agent :: "agent_dict \<Rightarrow> key \<Rightarrow> exn + key \<times> agent" where
  "lookup_agent d k =
     (case map_of d k of
        Some a \<Rightarrow> Inr (k, a)
      | None \<Rightarrow>
     (case py_int k of
        Inl e \<Rightarrow> Inl e
      | Inr i \<Rightarrow>
     (case map_of d (IntKey i) of
        Some a \<Rightarrow> Inr (IntKey i, a)
      | None \<Rightarrow>
     (case map_of d (StrKey (py_str k)) of
        Some a \<Rightarrow> Inr (StrKey (py_str k), a)
      | None \<Rightarrow> Inl UnboundLocalError))))"

text \<open>
  The appends of \<open>message_agent\<close> and the changes made by the hooks act on the list
  inside the record, so the record holds the list as it stands at the point where the
  call returns or an exception stops it.
\<close>

definition store_messages :: "AgentManager \<Rightarrow> key \<Rightarrow> string \<Rightarrow> string \<Rightarrow> message list \<Rightarrow> AgentManager" where
  "store_messages self k task model messages =
     self\<lparr>agents := AList.update k (task, messages, model) (agents self)\<rparr>"

definition message_agent ::
  "chat_completion \<Rightarrow> AgentManager \<Rightarrow> key \<Rightarrow> string \<Rightarrow> (exn + string) \<times> AgentManager" where
  "message_agent create_chat_completion self ky msg =
     (case lookup_agent (agents self) ky of
        Inl e \<Rightarrow> (Inl e, self)
      | Inr (k, task, messages0, model) \<Rightarrow>
     (case pre_instruction_loop (plugins (cfg self)) (messages0 @ [user_message msg]) of
        (Some e, messages) \<Rightarrow> (Inl e, store_messages self k task model messages)
      | (None, messages) \<Rightarrow>
     (case create_chat_completion model messages (cfg self) of
        Inl e \<Rightarrow> (Inl e, store_messages self k task model messages)
      | Inr agent_reply \<Rightarrow>
     (case on_instruction_loop (enumerate 0 (plugins (cfg self)))
             (messages @ [assistant_message agent_reply]) agent_reply of
        (Inl e, messages') \<Rightarrow> (Inl e, store_messages self k task model messages')
      | (Inr plugins_reply, messages') \<Rightarrow>
          let messages'' = append_plugins_reply messages' plugins_reply
          in case post_instruction_loop (plugins (cfg self)) agent_reply of
               Inl e \<Rightarrow> (Inl e, store_messages self k task model messages'')
             | Inr r \<Rightarrow> (Inr r, store_messages self k task model messages'')))))"

definition list_agents :: "AgentManager \<Rightarrow> (key \<times> string) list" where
  "list_agents self = map (\<lambda>(k, (task, _, _)). (k, task)) (agents self)"

text \<open>
  Lines 166-170: \<open>int(key)\<close> and the deletion are both inside the \<open>try\<close>, whose handler
  catches \<open>KeyError\<close> only.
\<close>

definition delete_agent :: "AgentManager \<Rightarrow> key \<Rightarrow> (exn + bool) \<times> AgentManager" where
  "delete_agent self ky =
     (case (case py_int ky of
              Inl e \<Rightarrow> Inl e
            | Inr i \<Rightarrow> dict_del (agents self) (IntKey i)) of
        Inr d \<Rightarrow> (Inr True, self\<lparr>agents := d\<rparr>)
      | Inl e \<Rightarrow> if e = KeyError then (Inr False, self) else (Inl e, self))"

subsection \<open>Sequences of calls\<close>

datatype call =
    CreateAgent string string string
  | MessageAgent key string
  | DeleteAgent key

datatype outcome =
    Created int string
  | Replied string
  | Deleted bool
  | Failed exn

text \<open>
  Each call of a sequence comes with the completion backend as it behaves at that
  call; an exception reaches the caller, who goes on with the next call.
\<close>

fun do_call :: "AgentManager \<Rightarrow> chat_completion \<times> call \<Rightarrow> outcome \<times> AgentManager" where
  "do_call self (llm, CreateAgent task prompt model) =
     (case create_agent llm self task prompt model of
        (Inl e, self') \<Rightarrow> (Failed e, self')
      | (Inr (k, r), self') \<Rightarrow> (Created k r, self'))"
| "do_call self (llm, MessageAgent ky msg) =
     (case message_agent llm self ky msg of
        (Inl e, self') \<Rightarrow> (Failed e, self')
      | (Inr r, self') \<Rightarrow> (Replied r, self'))"
| "do_call self (llm, DeleteAgent ky) =
     (case delete_agent self ky of
        (Inl e, self') \<Rightarrow> (Failed e, self')
      | (Inr b, self') \<Rightarrow> (Deleted b, self'))"

fun run :: "AgentManager \<Rightarrow> (chat_completion \<times> call) list \<Rightarrow> outcome list \<times> AgentManager" where
  "run self [] = ([], self)"
| "run self (c # cs) =
     (case do_call self c of
        (r, self') \<Rightarrow> (case run self' cs of (rs, self'') \<Rightarrow> (r # rs, self'')))"

fun created_keys :: "outcome list \<Rightarrow> int list" where
  "created_keys [] = []"
| "created_keys (Created k r # rs) = k # created_keys rs"
| "created_keys (_ # rs) = created_keys rs"

subsection \<open>Stub collaborators\<close>

text \<open>Backends and plugins on which the methods are run at concrete inputs.\<close>

definition no_plugins :: config where
  "no_plugins = \<lparr>plugins = []\<rparr>"

definition constant_backend :: "string \<Rightarrow> chat_completion" where
  "constant_backend reply model messages c = Inr reply"

definition failing_backend :: "exn \<Rightarrow> chat_completion" where
  "failing_backend e model messages c = Inl e"

definition silent_plugin :: plugin where
  "silent_plugin =
     \<lparr>can_handle_pre_instruction = False,
      pre_instruction = (\<lambda>messages. (Inr [], messages)),
      can_handle_on_instruction = False,
      on_instruction = (\<lambda>messages. (Inr None, messages)),
      can_handle_post_instruction = False, post_instruction = (\<lambda>response. Inr response)\<rparr>"

definition on_plugin :: "string \<Rightarrow> plugin" where
  "on_plugin s = silent_plugin
     \<lparr>can_handle_on_instruction := True,
      on_instruction := (\<lambda>messages. (Inr (Some s), messages))\<rparr>"





text \<open>The manager after the first agent has been created with no plugins.\<close>

definition session0 :: AgentManager where
  "session0 = snd (create_agent (constant_backend ''Hi there'') (AgentManager_init no_plugins [])
                     ''find prices'' ''Hello'' ''model-x'')"


text \<open>
  A registry that holds the integer key 7 only, one that holds the string key \<open>7\<close> as
  well, and one that holds the string key only.
\<close>

definition seven_only :: AgentManager where
  "seven_only = \<lparr>next_key = 8, cfg = no_plugins,
                  agents = [(IntKey 7, ''t'', [user_message ''p'', assistant_message ''a''], ''m'')]\<rparr>"

definition seven_both :: agent_dict where
  "seven_both = [(IntKey 7, ''int'', [user_message ''p''], ''m''),
                 (StrKey ''7'', ''str'', [user_message ''q''], ''m'')]"

definition seven_str :: agent_dict where
  "seven_str = [(StrKey ''7'', ''str'', [user_message ''q''], ''m'')]"

text \<open>An initial registry with one record, stored under the key 5.\<close>

definition restored :: agent_dict where
  "restored = [(IntKey 5, ''old task'', [user_message ''old''], ''model-x'')]"

text \<open>A create, the deletion of the agent created, and a second create.\<close>

definition create_delete_create :: "(chat_completion \<times> call) list" where
  "create_delete_create =
     [(constant_backend ''Hi'', CreateAgent ''t'' ''p'' ''m''),
      (constant_backend ''Hi'', DeleteAgent (StrKey ''0'')),
      (constant_backend ''Hi'', CreateAgent ''t'' ''p'' ''m'')]"

subsection \<open>The key invariant\<close>

text \<open>Every integer key of the registry is below \<open>next_key\<close>.\<close>

definition keys_below :: "AgentManager \<Rightarrow> bool" where
  "keys_below self =
     list_all (\<lambda>(k, a). case k of IntKey i \<Rightarrow> i < next_key self | StrKey s \<Rightarrow> True) (agents self)"

section \<open>Evaluation and auxiliary facts\<close>

lemmas py_defs = int_of_string_def strip_def is_space_def parse_digits_def is_digit_def
  digits_value_def digit_val_def str_int_def str_nat.simps digit_char_def

lemma session0_eq:
  "session0 = \<lparr>next_key = 1, cfg = no_plugins,
                agents = [(IntKey 0, ''find prices'',
                           [user_message ''Hello'', assistant_message ''Hi there''], ''model-x'')]\<rparr>"
  by (simp add: session0_def create_agent_def AgentManager_init_def no_plugins_def
        constant_backend_def append_plugins_reply_def)

lemma end_to_end:
  "create_agent (constant_backend ''Hi there'') (AgentManager_init no_plugins [])
                     ''find prices'' ''Hello'' ''model-x'' = (Inr (0, ''Hi there''), session0)"
  by (simp add: session0_def create_agent_def AgentManager_init_def no_plugins_def
        constant_backend_def append_plugins_reply_def)

lemma lookup_agent_Inr:
  "lookup_agent d ky = Inr (k, a) \<Longrightarrow> map_of d k = Some a"
  by (auto simp: lookup_agent_def split: option.splits sum.splits)

lemma lookup_agent_Inl:
  "lookup_agent d ky = Inl e \<Longrightarrow> e = ValueError \<or> e = UnboundLocalError"
  apply (cases ky)
  apply (auto simp: lookup_agent_def int_of_string_def parse_digits_def split: option.splits sum.splits list.splits if_splits)
  done

lemma message_agent_unresolved:
  "lookup_agent (agents self) ky = Inl e \<Longrightarrow> message_agent llm self ky msg = (Inl e, self)"
  by (simp add: message_agent_def)

lemma map_of_Some_dom: "map_of d k = Some a \<Longrightarrow> k \<in> fst ` set d"
  by (metis map_of_eq_None_iff option.distinct(1))

lemma update_present_keys:
  "map_of d k = Some a \<Longrightarrow> map fst (AList.update k a' d) = map fst d"
  by (metis AList.update_keys map_of_eq_None_iff option.distinct(1) set_map)

subsection \<open>The hook loops when the hooks leave the list as they found it\<close>




subsection \<open>The paths through the methods\<close>

lemma create_agent_plain:
  assumes "plugins (cfg self) = []"
  shows "create_agent (constant_backend reply) self task prompt model
           = (Inr (next_key self, reply),
              self\<lparr>next_key := next_key self + 1,
                   agents := AList.update (IntKey (next_key self))
                               (task, [user_message prompt, assistant_message reply], model)
                               (agents self)\<rparr>)"
  using assms
  by (simp add: create_agent_def constant_backend_def append_plugins_reply_def Let_def)

lemma create_agent_cases:
  assumes "create_agent llm self task prompt model = (res, self')"
  shows "(self' = self \<and> (\<exists>e. res = Inl e))
       \<or> (\<exists>msgs. self' = self\<lparr>next_key := next_key self + 1,
                     agents := AList.update (IntKey (next_key self)) (task, msgs, model) (agents self)\<rparr>
            \<and> ((\<exists>r. res = Inr (next_key self, r)) \<or> (\<exists>e. res = Inl e)))"
  using assms
  by (auto simp: create_agent_def Let_def split: sum.splits prod.splits option.splits)

lemma message_agent_success:
  assumes "lookup_agent (agents self) ky = Inr (k, task, h, model)"
      and "pre_instruction_loop (plugins (cfg self)) (h @ [user_message msg]) = (None, ms)"
      and "llm model ms (cfg self) = Inr reply"
      and "on_instruction_loop (enumerate 0 (plugins (cfg self)))
             (ms @ [assistant_message reply]) reply = (Inr agg, ms')"
      and "post_instruction_loop (plugins (cfg self)) reply = Inr r"
  shows "message_agent llm self ky msg =
           (Inr r, store_messages self k task model (append_plugins_reply ms' agg))"
  using assms by (simp add: message_agent_def)



lemma message_agent_cases:
  assumes "message_agent llm self ky msg = (res, self')"
  shows "self' = self
       \<or> (\<exists>k a a'. map_of (agents self) k = Some a
            \<and> self' = self\<lparr>agents := AList.update k a' (agents self)\<rparr>)"
proof (cases "lookup_agent (agents self) ky")
  case (Inl e)
  with assms show ?thesis by (simp add: message_agent_def)
next
  case (Inr b)
  obtain k task h model where b: "b = (k, task, h, model)" by (cases b) auto
  from Inr b have "map_of (agents self) k = Some (task, h, model)"
    by (simp add: lookup_agent_Inr)
  moreover from assms Inr b have "\<exists>ms. self' = store_messages self k task model ms"
    by (auto simp: message_agent_def Let_def split: sum.splits prod.splits option.splits)
  ultimately show ?thesis by (auto simp: store_messages_def)
qed

lemma delete_agent_cases:
  assumes "delete_agent self ky = (res, self')"
  shows "self' = self \<or> (\<exists>i. self' = self\<lparr>agents := AList.delete (IntKey i) (agents self)\<rparr>)"
  using assms
  by (auto simp: delete_agent_def dict_del_def split: sum.splits option.splits if_splits)

lemma delete_agent_present:
  assumes "py_int ky = Inr i" and "map_of (agents self) (IntKey i) = Some a"
  shows "delete_agent self ky = (Inr True, self\<lparr>agents := AList.delete (IntKey i) (agents self)\<rparr>)"
  using assms by (simp add: delete_agent_def dict_del_def)

lemma delete_agent_absent:
  assumes "py_int ky = Inr i" and "map_of (agents self) (IntKey i) = None"
  shows "delete_agent self ky = (Inr False, self)"
  using assms by (simp add: delete_agent_def dict_del_def)

lemma delete_agent_twice:
  assumes "py_int ky = Inr i" and "map_of (agents self) (IntKey i) = Some a"
  shows "fst (delete_agent self ky) = Inr True
       \<and> fst (delete_agent (snd (delete_agent self ky)) ky) = Inr False"
  using assms by (simp add: delete_agent_def dict_del_def AList.delete_conv')

lemma delete_agent_other_keys:
  assumes "py_int ky = Inr i" and "k \<noteq> IntKey i"
  shows "map_of (agents (snd (delete_agent self ky))) k = map_of (agents self) k"
  using assms by (simp add: delete_agent_def dict_del_def AList.delete_conv' split: option.splits)

subsection \<open>The invariant along a sequence of calls\<close>

lemma keys_below_iff:
  "keys_below self \<longleftrightarrow> (\<forall>i. IntKey i \<in> fst ` set (agents self) \<longrightarrow> i < next_key self)"
proof
  assume "keys_below self"
  then show "\<forall>i. IntKey i \<in> fst ` set (agents self) \<longrightarrow> i < next_key self"
    by (fastforce simp: keys_below_def list_all_iff)
next
  assume a: "\<forall>i. IntKey i \<in> fst ` set (agents self) \<longrightarrow> i < next_key self"
  have "case k of IntKey i \<Rightarrow> i < next_key self | StrKey s \<Rightarrow> True"
    if "(k, v) \<in> set (agents self)" for k v
  proof (cases k)
    case (IntKey i)
    with that have "IntKey i \<in> fst ` set (agents self)" by force
    with a IntKey show ?thesis by simp
  next
    case (StrKey s)
    then show ?thesis by simp
  qed
  then show "keys_below self"
    by (auto simp: keys_below_def list_all_iff)
qed

lemma keys_belowD:
  "keys_below self \<Longrightarrow> IntKey i \<in> fst ` set (agents self) \<Longrightarrow> i < next_key self"
  by (simp add: keys_below_iff)

lemma keys_below_create:
  assumes "keys_below self"
  shows "keys_below (self\<lparr>next_key := next_key self + 1,
           agents := AList.update (IntKey (next_key self)) a (agents self)\<rparr>)"
  unfolding keys_below_iff
proof (intro allI impI)
  fix i
  assume "IntKey i \<in> fst ` set (agents (self\<lparr>next_key := next_key self + 1,
           agents := AList.update (IntKey (next_key self)) a (agents self)\<rparr>))"
  then have "i = next_key self \<or> IntKey i \<in> fst ` set (agents self)"
    by (simp add: AList.dom_update)
  with assms show "i < next_key (self\<lparr>next_key := next_key self + 1,
           agents := AList.update (IntKey (next_key self)) a (agents self)\<rparr>)"
    by (auto dest: keys_belowD)
qed

lemma keys_below_store:
  assumes "keys_below self" and "map_of (agents self) k = Some a"
  shows "keys_below (self\<lparr>agents := AList.update k a' (agents self)\<rparr>)"
proof -
  from assms(2) have "k \<in> fst ` set (agents self)"
    by (metis map_of_eq_None_iff option.distinct(1))
  then have "fst ` set (AList.update k a' (agents self)) = fst ` set (agents self)"
    by (auto simp: AList.dom_update)
  with assms(1) show ?thesis by (simp add: keys_below_iff)
qed

lemma keys_below_delete:
  assumes "keys_below self"
  shows "keys_below (self\<lparr>agents := AList.delete k (agents self)\<rparr>)"
proof -
  have "fst ` set (AList.delete k (agents self)) \<subseteq> fst ` set (agents self)"
    by (auto simp: AList.delete_eq)
  with assms show ?thesis unfolding keys_below_iff by (simp add: subset_iff)
qed

lemma keys_below_init: "keys_below (AgentManager_init c [])"
  by (simp add: keys_below_def AgentManager_init_def)

lemma do_call_inv:
  assumes "keys_below self" and "do_call self c = (r, self')"
  shows "keys_below self' \<and> next_key self \<le> next_key self'
       \<and> (\<forall>k x. r = Created k x \<longrightarrow> k = next_key self \<and> next_key self' = k + 1)"
proof -
  obtain llm cl where c: "c = (llm, cl)" by (cases c) auto
  show ?thesis
  proof (cases cl)
    case (CreateAgent task prompt model)
    obtain res s where cr: "create_agent llm self task prompt model = (res, s)"
      by (cases "create_agent llm self task prompt model") auto
    from assms(2) c CreateAgent cr have s: "self' = s"
      and r: "r = (case res of Inl e \<Rightarrow> Failed e | Inr (k, x) \<Rightarrow> Created k x)"
      by (auto split: sum.splits)
    from create_agent_cases [OF cr] show ?thesis
    proof (elim disjE conjE exE)
      fix e assume "s = self" "res = Inl e"
      with assms(1) s r show ?thesis by simp
    next
      fix msgs r' 
      assume "s = self\<lparr>next_key := next_key self + 1,
                     agents := AList.update (IntKey (next_key self)) (task, msgs, model) (agents self)\<rparr>"
        and "res = Inr (next_key self, r')"
      with keys_below_create [OF assms(1)] s r show ?thesis by simp
    next
      fix msgs e
      assume "s = self\<lparr>next_key := next_key self + 1,
                     agents := AList.update (IntKey (next_key self)) (task, msgs, model) (agents self)\<rparr>"
        and "res = Inl e"
      with keys_below_create [OF assms(1)] s r show ?thesis by simp
    qed
  next
    case (MessageAgent ky msg)
    obtain res s where ms: "message_agent llm self ky msg = (res, s)"
      by (cases "message_agent llm self ky msg") auto
    from assms(2) c MessageAgent ms have s: "self' = s" and r: "\<And>k x. r \<noteq> Created k x"
      by (auto split: sum.splits)
    from message_agent_cases [OF ms] assms(1) s r show ?thesis
      by (auto intro: keys_below_store)
  next
    case (DeleteAgent ky)
    obtain res s where dl: "delete_agent self ky = (res, s)"
      by (cases "delete_agent self ky") auto
    from assms(2) c DeleteAgent dl have s: "self' = s" and r: "\<And>k x. r \<noteq> Created k x"
      by (auto split: sum.splits)
    from delete_agent_cases [OF dl] assms(1) s r show ?thesis
      by (auto intro: keys_below_delete)
  qed
qed

lemma run_inv:
  assumes "keys_below self" and "run self cs = (rs, self')"
  shows "keys_below self' \<and> next_key self \<le> next_key self'
       \<and> (\<forall>k \<in> set (created_keys rs). next_key self \<le> k \<and> k < next_key self')
       \<and> sorted_wrt (<) (created_keys rs)"
  using assms
proof (induction cs arbitrary: self rs self')
  case Nil
  then show ?case by simp
next
  case (Cons c cs)
  obtain r s1 where step: "do_call self c = (r, s1)" by (cases "do_call self c") auto
  obtain rs1 s2 where rest: "run s1 cs = (rs1, s2)" by (cases "run s1 cs") auto
  from Cons.prems(2) step rest have rs: "rs = r # rs1" and s2: "self' = s2" by auto
  from do_call_inv [OF Cons.prems(1) step]
  have kb1: "keys_below s1" and le1: "next_key self \<le> next_key s1"
    and cr: "\<And>k x. r = Created k x \<Longrightarrow> k = next_key self \<and> next_key s1 = k + 1"
    by auto
  from Cons.IH [OF kb1 rest]
  have kb2: "keys_below s2" and le2: "next_key s1 \<le> next_key s2"
    and bd: "\<And>k. k \<in> set (created_keys rs1) \<Longrightarrow> next_key s1 \<le> k \<and> k < next_key s2"
    and st: "sorted_wrt (<) (created_keys rs1)"
    by auto
  show ?case
  proof (cases r)
    case (Created k x)
    from cr [OF Created] have k: "k = next_key self" "next_key s1 = k + 1" by auto
    with Created rs s2 kb2 le1 le2 bd st show ?thesis by fastforce
  next
    case (Replied x)
    with rs s2 kb2 le1 le2 bd st show ?thesis by fastforce
  next
    case (Deleted x)
    with rs s2 kb2 le1 le2 bd st show ?thesis by fastforce
  next
    case (Failed x)
    with rs s2 kb2 le1 le2 bd st show ?thesis by fastforce
  qed
qed

lemma run_append:
  "run self (cs1 @ cs2) =
     (case run self cs1 of (rs1, s1) \<Rightarrow> (case run s1 cs2 of (rs2, s2) \<Rightarrow> (rs1 @ rs2, s2)))"
  by (induction cs1 arbitrary: self) (auto split: prod.splits)

lemma run_creates:
  assumes "plugins (cfg self) = []"
  shows "next_key (snd (run self (replicate n (constant_backend reply, CreateAgent task prompt model))))
           = next_key self + int n
       \<and> cfg (snd (run self (replicate n (constant_backend reply, CreateAgent task prompt model))))
           = cfg self
       \<and> (\<forall>k. next_key self + int n \<le> k \<longrightarrow>
            map_of (agents (snd (run self
                      (replicate n (constant_backend reply, CreateAgent task prompt model)))))
              (IntKey k) = map_of (agents self) (IntKey k))"
  using assms
proof (induction n arbitrary: self)
  case 0
  then show ?case by simp
next
  case (Suc n)
  let ?c = "(constant_backend reply, CreateAgent task prompt model)"
  let ?s1 = "self\<lparr>next_key := next_key self + 1,
                   agents := AList.update (IntKey (next_key self))
                               (task, [user_message prompt, assistant_message reply], model)
                               (agents self)\<rparr>"
  have step: "do_call self ?c = (Created (next_key self) reply, ?s1)"
    using Suc.prems by (simp add: create_agent_plain)
  have run: "snd (run self (replicate (Suc n) ?c)) = snd (run ?s1 (replicate n ?c))"
    using step by (simp split: prod.splits)
  have "plugins (cfg ?s1) = []" using Suc.prems by simp
  from Suc.IH [OF this] show ?case
    unfolding run by (simp add: AList.update_conv')
qed

lemma create_agent_fresh_key:
  assumes "keys_below self"
      and "create_agent llm self task prompt model = (Inr (k, r), self')"
  shows "map_of (agents self) (IntKey k) = None"
proof (rule ccontr)
  assume "map_of (agents self) (IntKey k) \<noteq> None"
  then have "IntKey k \<in> fst ` set (agents self)"
    by (auto dest: map_of_Some_dom)
  with assms(1) have "k < next_key self" by (rule keys_belowD)
  moreover from create_agent_cases [OF assms(2)] have "k = next_key self" by auto
  ultimately show False by simp
qed

section \<open>The claims\<close>

text \<open>
  Claim C1 says that \<open>message_agent\<close> on a key that none of the three lookups finds
  fails with a session-not-found error and raises no unrelated error. On the code the
  chain of lines 87-92 has no final branch: for the integer key 5 on an empty registry
  the local \<open>messages\<close> is never bound and line 95 raises \<open>UnboundLocalError\<close>; for the
  string key \<open>abc\<close> the coercion \<open>int(key)\<close> of line 89 raises \<open>ValueError\<close>. The handler
  re-raises either one, and the manager is left as it was.
\<close>

theorem message_agent_unknown_key_raises:
  "message_agent llm (AgentManager_init c []) (IntKey 5) ''hi''
     = (Inl UnboundLocalError, AgentManager_init c [])
   \<and> message_agent llm (AgentManager_init c []) (StrKey ''abc'') ''hi''
     = (Inl ValueError, AgentManager_init c [])"
  by (simp add: message_agent_def lookup_agent_def AgentManager_init_def py_defs)

text \<open>
  Claim C2 says that the on-instruction aggregate of \<open>message_agent\<close>, seeded with the
  backend reply, is appended if and only if it differs from the seed, so that nothing
  extra is appended when no plugin takes part. The test of line 121 is the test of
  line 60, that the aggregate is not empty; in \<open>create_agent\<close> the seed is empty and the
  test lets through what the plugins contributed, so the first agent created with no
  plugins holds the prompt and the reply once. In \<open>message_agent\<close> the seed is the reply:
  with no plugins and a backend that answers \<open>Hi\<close> the aggregate is the seed, and the
  history ends with the reply twice.
\<close>

theorem message_agent_repeats_reply:
  "agents session0 = [(IntKey 0, ''find prices'',
                       [\<lparr>role = ''user'', content = ''Hello''\<rparr>,
                        \<lparr>role = ''assistant'', content = ''Hi there''\<rparr>], ''model-x'')]
   \<and> on_instruction_loop (enumerate 0 (plugins (cfg session0)))
       [user_message ''Hello'', assistant_message ''Hi there'', user_message ''more'',
        assistant_message ''Hi''] ''Hi''
     = (Inr ''Hi'', [user_message ''Hello'', assistant_message ''Hi there'',
                     user_message ''more'', assistant_message ''Hi''])
   \<and> message_agent (constant_backend ''Hi'') session0 (IntKey 0) ''more''
     = (Inr ''Hi'',
        session0\<lparr>agents := [(IntKey 0, ''find prices'',
                     [\<lparr>role = ''user'', content = ''Hello''\<rparr>,
                      \<lparr>role = ''assistant'', content = ''Hi there''\<rparr>,
                      \<lparr>role = ''user'', content = ''more''\<rparr>,
                      \<lparr>role = ''assistant'', content = ''Hi''\<rparr>,
                      \<lparr>role = ''assistant'', content = ''Hi''\<rparr>], ''model-x'')]\<rparr>)"
  by (simp add: session0_eq message_agent_def lookup_agent_def store_messages_def
        no_plugins_def constant_backend_def append_plugins_reply_def user_message_def
        assistant_message_def)

text \<open>
  Claim C3 says that in \<open>create_agent\<close> the first contribution to the aggregate has no
  leading newline, wherever the contributing plugins stand in the plugin list. Line 57
  takes the separator from the index of the plugin in the list: with a plugin that
  handles nothing at index 0 and a plugin returning \<open>A\<close> at index 1, the message stored
  is a newline followed by \<open>A\<close>; with contributors at indices 1 and 2 the aggregate
  starts with a newline as well.
\<close>

theorem create_agent_leading_separator:
  "create_agent (constant_backend ''Hi'')
     (AgentManager_init \<lparr>plugins = [silent_plugin, on_plugin ''A'']\<rparr> []) ''t'' ''p'' ''m''
   = (Inr (0, ''Hi''),
      \<lparr>next_key = 1, cfg = \<lparr>plugins = [silent_plugin, on_plugin ''A'']\<rparr>,
       agents = [(IntKey 0, ''t'',
                  [user_message ''p'', assistant_message ''Hi'',
                   assistant_message (CHR 0x0A # ''A'')], ''m'')]\<rparr>)
   \<and> on_instruction_loop (enumerate 0 [silent_plugin, on_plugin ''A'', on_plugin ''B''])
        [user_message ''p'', assistant_message ''Hi''] []
     = (Inr (CHR 0x0A # ''A'' @ CHR 0x0A # ''B''),
        [user_message ''p'', assistant_message ''Hi''])"
  by (simp add: create_agent_def AgentManager_init_def constant_backend_def on_plugin_def
        silent_plugin_def append_plugins_reply_def)

text \<open>
  Claim C4: from an empty registry, along any sequence of calls, the keys returned by
  \<open>create_agent\<close> are strictly increasing; \<open>next_key\<close> after a prefix of the sequence is
  at most \<open>next_key\<close> after the whole of it; and a key that is in the registry after a
  prefix (so any key deleted later) is not returned by any create of the rest.
\<close>

theorem created_keys_increase:
  "sorted_wrt (<) (created_keys (fst (run (AgentManager_init c []) (cs1 @ cs2))))
   \<and> next_key (snd (run (AgentManager_init c []) cs1))
       \<le> next_key (snd (run (AgentManager_init c []) (cs1 @ cs2)))
   \<and> (IntKey i \<in> fst ` set (agents (snd (run (AgentManager_init c []) cs1)))
        \<longrightarrow> i \<notin> set (created_keys (fst (run (snd (run (AgentManager_init c []) cs1)) cs2))))"
proof -
  obtain rs1 s1 where r1: "run (AgentManager_init c []) cs1 = (rs1, s1)"
    by (cases "run (AgentManager_init c []) cs1") auto
  obtain rs2 s2 where r2: "run s1 cs2 = (rs2, s2)" by (cases "run s1 cs2") auto
  obtain rs s where r: "run (AgentManager_init c []) (cs1 @ cs2) = (rs, s)"
    by (cases "run (AgentManager_init c []) (cs1 @ cs2)") auto
  from r r1 r2 have s: "s = s2" by (simp add: run_append)
  from run_inv [OF keys_below_init r] have "sorted_wrt (<) (created_keys rs)" by simp
  moreover from run_inv [OF keys_below_init r1] have kb1: "keys_below s1" by simp
  from run_inv [OF kb1 r2] have "next_key s1 \<le> next_key s2"
    and bd: "\<forall>k \<in> set (created_keys rs2). next_key s1 \<le> k" by auto
  moreover have "i \<notin> set (created_keys rs2)" if "IntKey i \<in> fst ` set (agents s1)"
    using keys_belowD [OF kb1 that] bd by auto
  ultimately show ?thesis using r r1 r2 s by simp
qed

theorem created_keys_increase_witness:
  "sorted_wrt (<) (created_keys (fst (run (AgentManager_init no_plugins []) create_delete_create)))
   \<and> created_keys (fst (run (AgentManager_init no_plugins []) create_delete_create)) = [0, 1]
   \<and> IntKey 0 \<in> fst ` set (agents (snd (run (AgentManager_init no_plugins [])
                                          [(constant_backend ''Hi'', CreateAgent ''t'' ''p'' ''m'')])))
   \<and> 0 \<notin> set (created_keys (fst (run
        (snd (run (AgentManager_init no_plugins [])
               [(constant_backend ''Hi'', CreateAgent ''t'' ''p'' ''m'')]))
        [(constant_backend ''Hi'', DeleteAgent (StrKey ''0'')),
         (constant_backend ''Hi'', CreateAgent ''t'' ''p'' ''m'')])))"
  using created_keys_increase [where c = no_plugins and i = 0
      and ?cs1.0 = "[(constant_backend ''Hi'', CreateAgent ''t'' ''p'' ''m'')]"
      and ?cs2.0 = "[(constant_backend ''Hi'', DeleteAgent (StrKey ''0'')),
                    (constant_backend ''Hi'', CreateAgent ''t'' ''p'' ''m'')]"]
  by (simp add: create_delete_create_def create_agent_plain AgentManager_init_def
        no_plugins_def delete_agent_def dict_del_def py_defs)

text \<open>
  Claim C5: when the backend call of \<open>create_agent\<close> raises (the pre-instruction loop
  has finished, and the backend fails on the messages it produced), the call raises
  that exception and the manager is unchanged: no record is added and \<open>next_key\<close> is
  what it was.
\<close>

theorem create_agent_backend_failure:
  assumes "pre_instruction_loop (plugins (cfg self)) [user_message prompt] = (None, ms)"
      and "llm model ms (cfg self) = Inl e"
  shows "create_agent llm self task prompt model = (Inl e, self)"
  using assms by (simp add: create_agent_def)

theorem create_agent_backend_failure_witness:
  "create_agent (failing_backend (Raised ''rate limit'')) session0 ''t'' ''p'' ''m''
     = (Inl (Raised ''rate limit''), session0)"
  using create_agent_backend_failure [of session0 "''p''" "[user_message ''p'']"
      "failing_backend (Raised ''rate limit'')" "''m''" "Raised ''rate limit''" "''t''"]
  by (simp add: session0_eq no_plugins_def failing_backend_def)

text \<open>
  Claim C6 says that \<open>delete_agent\<close> never raises, whatever the key. The coercion
  \<open>int(key)\<close> stands inside the \<open>try\<close> of line 166, whose handler catches \<open>KeyError\<close>
  only: on the string key \<open>abc\<close> the call raises \<open>ValueError\<close>. (For a key that has an
  integer coercion the lemmas \<open>delete_agent_present\<close>, \<open>delete_agent_absent\<close> and
  \<open>delete_agent_twice\<close> above give the results the claim states.)
\<close>

theorem delete_agent_raises:
  "delete_agent self (StrKey ''abc'') = (Inl ValueError, self)"
  by (simp add: delete_agent_def py_defs)




text \<open>
  Claim C8: the lookup tries the key as given, then its integer coercion, then its
  string coercion, and binds the record of the first form that is in the registry:
  the key as given wins when it is present; otherwise the integer coercion wins when it
  is present; otherwise the string coercion is bound when it is present. The string
  \<open>7\<close> coerces to the integer 7 and the integer 7 to the string \<open>7\<close>. So when the registry
  holds the integer key 7 and not the string key \<open>7\<close>, the two calls of \<open>message_agent\<close>,
  with the string and with the integer, have the same outcome, and when the hooks and
  the backend do not raise, both return the reply and leave the registry with the
  record under the integer key 7 replaced by the one that holds the new history.
\<close>

theorem lookup_resolution_order:
  "(map_of d ky = Some a \<longrightarrow> lookup_agent d ky = Inr (ky, a))
   \<and> (map_of d ky = None \<and> py_int ky = Inr i \<and> map_of d (IntKey i) = Some a
        \<longrightarrow> lookup_agent d ky = Inr (IntKey i, a))
   \<and> (map_of d ky = None \<and> py_int ky = Inr i \<and> map_of d (IntKey i) = None
        \<and> map_of d (StrKey (py_str ky)) = Some a
        \<longrightarrow> lookup_agent d ky = Inr (StrKey (py_str ky), a))
   \<and> py_int (StrKey ''7'') = Inr 7 \<and> py_str (IntKey 7) = ''7''
   \<and> (map_of (agents self) (IntKey 7) = Some (task, h, model)
        \<and> map_of (agents self) (StrKey ''7'') = None
        \<longrightarrow> message_agent llm self (StrKey ''7'') msg = message_agent llm self (IntKey 7) msg
          \<and> (pre_instruction_loop (plugins (cfg self))
                 (h @ [\<lparr>role = ''user'', content = msg\<rparr>]) = (None, ms)
              \<and> llm model ms (cfg self) = Inr reply
              \<and> on_instruction_loop (enumerate 0 (plugins (cfg self)))
                   (ms @ [\<lparr>role = ''assistant'', content = reply\<rparr>]) reply = (Inr agg, ms')
              \<and> post_instruction_loop (plugins (cfg self)) reply = Inr r
              \<longrightarrow> message_agent llm self (IntKey 7) msg
                    = (Inr r,
                       self\<lparr>agents := AList.update (IntKey 7)
                          (task,
                           ms' @ (if agg \<noteq> [] then [\<lparr>role = ''assistant'', content = agg\<rparr>]
                                  else []),
                           model) (agents self)\<rparr>)))"
proof -
  have seven: "py_int (StrKey ''7'') = Inr 7" "py_str (IntKey 7) = ''7''"
    by (simp_all add: py_defs)
  have given: "lookup_agent d ky = Inr (ky, a)" if "map_of d ky = Some a"
    using that by (simp add: lookup_agent_def)
  have coerced: "lookup_agent d ky = Inr (IntKey i, a)"
    if "map_of d ky = None" "py_int ky = Inr i" "map_of d (IntKey i) = Some a"
    using that by (simp add: lookup_agent_def)
  have as_string: "lookup_agent d ky = Inr (StrKey (py_str ky), a)"
    if "map_of d ky = None" "py_int ky = Inr i" "map_of d (IntKey i) = None"
      "map_of d (StrKey (py_str ky)) = Some a"
    using that by (simp add: lookup_agent_def)
  have scenario:
    "message_agent llm self (StrKey ''7'') msg = message_agent llm self (IntKey 7) msg
     \<and> (pre_instruction_loop (plugins (cfg self))
            (h @ [\<lparr>role = ''user'', content = msg\<rparr>]) = (None, ms)
         \<and> llm model ms (cfg self) = Inr reply
         \<and> on_instruction_loop (enumerate 0 (plugins (cfg self)))
              (ms @ [\<lparr>role = ''assistant'', content = reply\<rparr>]) reply = (Inr agg, ms')
         \<and> post_instruction_loop (plugins (cfg self)) reply = Inr r
         \<longrightarrow> message_agent llm self (IntKey 7) msg
               = (Inr r,
                  self\<lparr>agents := AList.update (IntKey 7)
                     (task,
                      ms' @ (if agg \<noteq> [] then [\<lparr>role = ''assistant'', content = agg\<rparr>]
                             else []),
                      model) (agents self)\<rparr>))"
    if int7: "map_of (agents self) (IntKey 7) = Some (task, h, model)"
      and str7: "map_of (agents self) (StrKey ''7'') = None"
  proof -
    have l1: "lookup_agent (agents self) (IntKey 7) = Inr (IntKey 7, task, h, model)"
      using int7 by (simp add: lookup_agent_def)
    have l2: "lookup_agent (agents self) (StrKey ''7'') = Inr (IntKey 7, task, h, model)"
      using int7 str7 seven by (simp add: lookup_agent_def)
    from l1 l2 have same:
      "message_agent llm self (StrKey ''7'') msg = message_agent llm self (IntKey 7) msg"
      by (simp add: message_agent_def)
    have "message_agent llm self (IntKey 7) msg
            = (Inr r,
               self\<lparr>agents := AList.update (IntKey 7)
                  (task,
                   ms' @ (if agg \<noteq> [] then [\<lparr>role = ''assistant'', content = agg\<rparr>] else []),
                   model) (agents self)\<rparr>)"
      if "pre_instruction_loop (plugins (cfg self))
            (h @ [\<lparr>role = ''user'', content = msg\<rparr>]) = (None, ms)"
        and "llm model ms (cfg self) = Inr reply"
        and "on_instruction_loop (enumerate 0 (plugins (cfg self)))
               (ms @ [\<lparr>role = ''assistant'', content = reply\<rparr>]) reply = (Inr agg, ms')"
        and "post_instruction_loop (plugins (cfg self)) reply = Inr r"
      using message_agent_success [OF l1, of msg ms llm reply agg ms' r] that
      by (simp add: store_messages_def append_plugins_reply_def user_message_def
            assistant_message_def)
    with same show ?thesis by blast
  qed
  from seven given coerced as_string scenario show ?thesis by blast
qed

theorem lookup_resolution_order_witness:
  "message_agent (constant_backend ''Hi'') seven_only (StrKey ''7'') ''more''
     = (Inr ''Hi'',
        \<lparr>next_key = 8, cfg = no_plugins,
         agents = [(IntKey 7, ''t'',
                    [\<lparr>role = ''user'', content = ''p''\<rparr>,
                     \<lparr>role = ''assistant'', content = ''a''\<rparr>,
                     \<lparr>role = ''user'', content = ''more''\<rparr>,
                     \<lparr>role = ''assistant'', content = ''Hi''\<rparr>,
                     \<lparr>role = ''assistant'', content = ''Hi''\<rparr>], ''m'')]\<rparr>)
   \<and> message_agent (constant_backend ''Hi'') seven_only (IntKey 7) ''more''
     = (Inr ''Hi'',
        \<lparr>next_key = 8, cfg = no_plugins,
         agents = [(IntKey 7, ''t'',
                    [\<lparr>role = ''user'', content = ''p''\<rparr>,
                     \<lparr>role = ''assistant'', content = ''a''\<rparr>,
                     \<lparr>role = ''user'', content = ''more''\<rparr>,
                     \<lparr>role = ''assistant'', content = ''Hi''\<rparr>,
                     \<lparr>role = ''assistant'', content = ''Hi''\<rparr>], ''m'')]\<rparr>)
   \<and> lookup_agent seven_both (StrKey ''7'')
     = Inr (StrKey ''7'', ''str'', [user_message ''q''], ''m'')
   \<and> lookup_agent seven_both (IntKey 7)
     = Inr (IntKey 7, ''int'', [user_message ''p''], ''m'')
   \<and> lookup_agent (agents seven_only) (StrKey ''7'')
     = Inr (IntKey 7, ''t'', [user_message ''p'', assistant_message ''a''], ''m'')
   \<and> lookup_agent seven_str (IntKey 7)
     = Inr (StrKey ''7'', ''str'', [user_message ''q''], ''m'')"
  using lookup_resolution_order [where self = seven_only and task = "''t''"
      and h = "[user_message ''p'', assistant_message ''a'']" and model = "''m''"
      and msg = "''more''"
      and ms = "[user_message ''p'', assistant_message ''a'', user_message ''more'']"
      and ms' = "[user_message ''p'', assistant_message ''a'', user_message ''more'',
                  assistant_message ''Hi'']"
      and llm = "constant_backend ''Hi''" and reply = "''Hi''" and agg = "''Hi''"
      and r = "''Hi''" and d = seven_both and ky = "StrKey ''7''"
      and a = "(''str'', [user_message ''q''], ''m'')" and i = 7]
    lookup_resolution_order [where d = seven_both and ky = "IntKey 7"
      and a = "(''int'', [user_message ''p''], ''m'')" and i = 7]
    lookup_resolution_order [where d = "agents seven_only" and ky = "StrKey ''7''"
      and a = "(''t'', [user_message ''p'', assistant_message ''a''], ''m'')" and i = 7]
    lookup_resolution_order [where d = seven_str and ky = "IntKey 7"
      and a = "(''str'', [user_message ''q''], ''m'')" and i = 7]
  by (simp add: seven_only_def seven_both_def seven_str_def no_plugins_def
        constant_backend_def user_message_def assistant_message_def)

text \<open>
  Claim C9: \<open>next_key\<close> starts at the number of entries of the initial registry. So when
  the initial registry holds an integer key \<open>k\<close> that is not below that number, the
  creates that follow count up to \<open>k\<close>: the record under \<open>k\<close> is still there when
  \<open>create_agent\<close> returns the key \<open>k\<close>, and the call replaces it without an error and
  without a new entry. (When every integer key is below \<open>next_key\<close>, the lemma
  \<open>create_agent_fresh_key\<close> above shows that the key returned is not in the registry.)
\<close>

theorem next_key_counts_entries:
  "next_key (AgentManager_init c ags) = int (length ags)
   \<and> (map_of ags (IntKey k) = Some a \<and> int (length ags) \<le> k \<longrightarrow>
        (let s = snd (run (AgentManager_init no_plugins ags)
                        (replicate (nat (k - int (length ags)))
                           (constant_backend reply, CreateAgent task prompt model)));
             new = (task, [user_message prompt, assistant_message reply], model)
         in map_of (agents s) (IntKey k) = Some a
          \<and> create_agent (constant_backend reply) s task prompt model
              = (Inr (k, reply),
                 s\<lparr>next_key := k + 1, agents := AList.update (IntKey k) new (agents s)\<rparr>)
          \<and> map fst (AList.update (IntKey k) new (agents s)) = map fst (agents s)
          \<and> map_of (AList.update (IntKey k) new (agents s)) (IntKey k) = Some new))"
proof -
  have init: "next_key (AgentManager_init c ags) = int (length ags)"
    by (simp add: AgentManager_init_def)
  have coll: "(let s = snd (run (AgentManager_init no_plugins ags)
                        (replicate (nat (k - int (length ags)))
                           (constant_backend reply, CreateAgent task prompt model)));
             new = (task, [user_message prompt, assistant_message reply], model)
         in map_of (agents s) (IntKey k) = Some a
          \<and> create_agent (constant_backend reply) s task prompt model
              = (Inr (k, reply),
                 s\<lparr>next_key := k + 1, agents := AList.update (IntKey k) new (agents s)\<rparr>)
          \<and> map fst (AList.update (IntKey k) new (agents s)) = map fst (agents s)
          \<and> map_of (AList.update (IntKey k) new (agents s)) (IntKey k) = Some new)"
    if present: "map_of ags (IntKey k) = Some a" and le: "int (length ags) \<le> k"
  proof -
    let ?m0 = "AgentManager_init no_plugins ags"
    let ?n = "nat (k - int (length ags))"
    let ?s = "snd (run ?m0 (replicate ?n (constant_backend reply, CreateAgent task prompt model)))"
    have p0: "plugins (cfg ?m0) = []"
      by (simp add: AgentManager_init_def no_plugins_def)
    from run_creates [OF p0, of ?n reply task prompt model] le
    have nk: "next_key ?s = k" and cf: "plugins (cfg ?s) = []"
      and keep: "map_of (agents ?s) (IntKey k) = map_of (agents ?m0) (IntKey k)"
      using p0 by (simp_all add: AgentManager_init_def)
    from keep present have here: "map_of (agents ?s) (IntKey k) = Some a"
      by (simp add: AgentManager_init_def)
    from create_agent_plain [OF cf, of reply task prompt model] nk
    have cr: "create_agent (constant_backend reply) ?s task prompt model
              = (Inr (k, reply),
                 ?s\<lparr>next_key := k + 1,
                     agents := AList.update (IntKey k)
                       (task, [user_message prompt, assistant_message reply], model) (agents ?s)\<rparr>)"
      by simp
    from here cr show ?thesis
      by (simp add: Let_def update_present_keys AList.update_conv')
  qed
  from init coll show ?thesis by blast
qed

theorem next_key_counts_entries_witness:
  "next_key (AgentManager_init no_plugins restored) = 1
   \<and> run (AgentManager_init no_plugins restored)
       (replicate 5 (constant_backend ''Hi'', CreateAgent ''t'' ''p'' ''m''))
     = ([Created 1 ''Hi'', Created 2 ''Hi'', Created 3 ''Hi'', Created 4 ''Hi'', Created 5 ''Hi''],
        \<lparr>next_key = 6, cfg = no_plugins,
         agents = [(IntKey 5, ''t'', [user_message ''p'', assistant_message ''Hi''], ''m''),
                   (IntKey 1, ''t'', [user_message ''p'', assistant_message ''Hi''], ''m''),
                   (IntKey 2, ''t'', [user_message ''p'', assistant_message ''Hi''], ''m''),
                   (IntKey 3, ''t'', [user_message ''p'', assistant_message ''Hi''], ''m''),
                   (IntKey 4, ''t'', [user_message ''p'', assistant_message ''Hi''], ''m'')]\<rparr>)"
  using next_key_counts_entries [where c = no_plugins and ags = restored and k = 5
      and a = "(''old task'', [user_message ''old''], ''model-x'')"
      and reply = "''Hi''" and task = "''t''" and prompt = "''p''" and model = "''m''"]
  by (simp add: restored_def AgentManager_init_def no_plugins_def create_agent_plain
        eval_nat_numeral)



end
